theory Spec2Isabelle
  imports Main "HOL-Library.Word" "HOL-Library.Log_Nat"
begin

section \<open>JavaScript values used by the screens\<close>

text \<open>
  A JavaScript string is a sequence of 16-bit code units and \<open>.length\<close> counts
  those units. A string literal of the source is written through \<open>js\<close>, which maps
  each (ASCII) character to its code unit.
\<close>

type_synonym jsstring = "16 word list"

definition js :: "string \<Rightarrow> jsstring" where
  "js s = map (\<lambda>c. word_of_nat (of_char c)) s"

text \<open>
  \<open>Object.values(o)\<close> lists the property values of \<open>o\<close> in insertion order and
  \<open>xs.some(p)\<close> is true when \<open>p\<close> holds of an element.
\<close>

definition some :: "('a \<Rightarrow> bool) \<Rightarrow> 'a list \<Rightarrow> bool" where
  "some p xs = list_ex p xs"


text \<open>
  Reading \<open>.length\<close> of a string gives its number of code units; reading it of
  \<open>undefined\<close> (written \<open>None\<close>) throws a \<open>TypeError\<close>.
\<close>

datatype js_error = TypeError

definition js_length :: "jsstring option \<Rightarrow> js_error + nat" where
  "js_length v = (case v of None \<Rightarrow> Inl TypeError | Some s \<Rightarrow> Inr (length s))"

text \<open>A string is truthy when it is not empty.\<close>

definition truthy :: "jsstring \<Rightarrow> bool" where
  "truthy s = (s \<noteq> [])"

text \<open>
  \<open>String.prototype.trim\<close> removes leading and trailing white space and line
  terminators (ECMAScript \<open>WhiteSpace\<close> and \<open>LineTerminator\<close>).
\<close>

definition js_whitespace :: "16 word \<Rightarrow> bool" where
  "js_whitespace c =
     (c \<in> set [0x0009, 0x000A, 0x000B, 0x000C, 0x000D, 0x0020, 0x00A0, 0x1680,
               0x2000, 0x2001, 0x2002, 0x2003, 0x2004, 0x2005, 0x2006, 0x2007,
               0x2008, 0x2009, 0x200A, 0x2028, 0x2029, 0x202F, 0x205F, 0x3000, 0xFEFF])"

definition trim :: "jsstring \<Rightarrow> jsstring" where
  "trim s = rev (dropWhile js_whitespace (rev (dropWhile js_whitespace s)))"

subsection \<open>Numbers\<close>

text \<open>
  A JavaScript number is an IEEE 754 double. The screens divide two string-length sized
  integers, so a number is modelled as a rational (every finite double is one),
  \<open>Infinity\<close> or \<open>NaN\<close>, and the quotient is the exact quotient rounded to the nearest
  double, ties to even: \<open>ilog2 q\<close> is the binary exponent of \<open>q > 0\<close> and the
  significand has 53 bits. The exponent is not bounded here; for operands below
  \<open>2 ^ 53\<close> the quotient is zero or lies between \<open>2 powi (- 53)\<close> and \<open>2 ^ 53\<close>, where
  doubles neither overflow nor become subnormal.
\<close>

datatype jsnum = Num rat | Infinity | NaN

definition round_half_even :: "rat \<Rightarrow> int" where
  "round_half_even x =
     (let f = \<lfloor>x\<rfloor>; d = x - of_int f
      in if d < 1 / 2 then f else if 1 / 2 < d then f + 1 else if even f then f else f + 1)"

definition ilog2 :: "rat \<Rightarrow> int" where
  "ilog2 q = (let (a, b) = quotient_of q; e0 = bitlen a - bitlen b
              in if 2 powi e0 \<le> q then e0 else e0 - 1)"

definition double_round :: "rat \<Rightarrow> rat" where
  "double_round q =
     (if q = 0 then 0
      else let e = ilog2 q
           in of_int (round_half_even (q * 2 powi (52 - e))) * 2 powi (e - 52))"

text \<open>\<open>a / b\<close> for two non-negative integers: \<open>0 / 0\<close> is \<open>NaN\<close>, \<open>a / 0\<close> is \<open>Infinity\<close>.\<close>

definition js_div :: "nat \<Rightarrow> nat \<Rightarrow> jsnum" where
  "js_div a b =
     (if b = 0 then (if a = 0 then NaN else Infinity)
      else Num (double_round (of_nat a / of_nat b)))"

fun Math_min :: "jsnum \<Rightarrow> jsnum \<Rightarrow> jsnum" where
  "Math_min NaN _ = NaN"
| "Math_min _ NaN = NaN"
| "Math_min Infinity y = y"
| "Math_min x Infinity = x"
| "Math_min (Num x) (Num y) = Num (min x y)"

text \<open>\<open>x >= y\<close>; every comparison with \<open>NaN\<close> is false.\<close>

fun js_ge :: "jsnum \<Rightarrow> jsnum \<Rightarrow> bool" where
  "js_ge NaN _ = False"
| "js_ge _ NaN = False"
| "js_ge Infinity _ = True"
| "js_ge (Num x) Infinity = False"
| "js_ge (Num x) (Num y) = (y \<le> x)"

subsection \<open>What a handler does to the outside\<close>

text \<open>
  A handler's calls to the host are collected in order: \<open>Alert.alert\<close> with its title,
  message and buttons (a button has a label and the callback run when it is pressed) and
  \<open>console.log\<close> with its arguments.
\<close>

datatype callback = router_push jsstring

datatype effect =
    Alert_alert jsstring jsstring "(jsstring \<times> callback) list"
  | console_log "jsstring list"

section \<open>app/casestudies/create/NowThenFrame.tsx\<close>

subsection \<open>Configuration and state\<close>

record min_chars =
  min_headline :: nat
  min_initialSituation :: nat
  min_implementation :: nat
  min_results :: nat

definition MIN_CHARS :: min_chars where
  "MIN_CHARS = \<lparr> min_headline = 30, min_initialSituation = 200,
                 min_implementation = 300, min_results = 150 \<rparr>"

record form_errors =
  err_headline :: bool
  err_initialSituation :: bool
  err_implementation :: bool
  err_results :: bool

definition Object_values :: "form_errors \<Rightarrow> bool list" where
  "Object_values e =
     [err_headline e, err_initialSituation e, err_implementation e, err_results e]"

record form_state =
  headline :: jsstring
  initialSituation :: jsstring
  implementation :: jsstring
  results :: jsstring
  roi :: jsstring
  contextModalVisible :: bool
  contextForOlivia :: jsstring
  errors :: form_errors
  isValid :: bool

text \<open>The values given to \<open>useState\<close> when the screen is mounted.\<close>

definition initial_state :: form_state where
  "initial_state =
     \<lparr> headline = [], initialSituation = [], implementation = [], results = [], roi = [],
       contextModalVisible = False, contextForOlivia = [],
       errors = \<lparr> err_headline = False, err_initialSituation = False,
                  err_implementation = False, err_results = False \<rparr>,
       isValid = False \<rparr>"

text \<open>The four fields tracked in \<open>MIN_CHARS\<close> and \<open>errors\<close>; \<open>roi\<close> is in neither.\<close>

datatype field = Headline | InitialSituation | Implementation | Results

fun content :: "field \<Rightarrow> form_state \<Rightarrow> jsstring" where
  "content Headline s = headline s"
| "content InitialSituation s = initialSituation s"
| "content Implementation s = implementation s"
| "content Results s = results s"

fun setContent :: "field \<Rightarrow> jsstring \<Rightarrow> form_state \<Rightarrow> form_state" where
  "setContent Headline v s = s\<lparr>headline := v\<rparr>"
| "setContent InitialSituation v s = s\<lparr>initialSituation := v\<rparr>"
| "setContent Implementation v s = s\<lparr>implementation := v\<rparr>"
| "setContent Results v s = s\<lparr>results := v\<rparr>"

definition setRoi :: "jsstring \<Rightarrow> form_state \<Rightarrow> form_state" where
  "setRoi v s = s\<lparr>roi := v\<rparr>"

fun threshold :: "min_chars \<Rightarrow> field \<Rightarrow> nat" where
  "threshold mc Headline = min_headline mc"
| "threshold mc InitialSituation = min_initialSituation mc"
| "threshold mc Implementation = min_implementation mc"
| "threshold mc Results = min_results mc"

fun error_flag :: "field \<Rightarrow> form_errors \<Rightarrow> bool" where
  "error_flag Headline e = err_headline e"
| "error_flag InitialSituation e = err_initialSituation e"
| "error_flag Implementation e = err_implementation e"
| "error_flag Results e = err_results e"

text \<open>The screen stores error flags; a field is satisfied when its error flag is off.\<close>

definition satisfied :: "field \<Rightarrow> form_state \<Rightarrow> bool" where
  "satisfied f s = (\<not> error_flag f (errors s))"

subsection \<open>The validation effect\<close>

text \<open>
  The body of the \<open>useEffect\<close> that runs when one of the four tracked fields changes.
  \<open>newErrors\<close> takes the four lengths; the table of minimum lengths is an argument, and
  the screen runs the effect with \<open>MIN_CHARS\<close>.
\<close>

definition newErrors :: "min_chars \<Rightarrow> nat \<Rightarrow> nat \<Rightarrow> nat \<Rightarrow> nat \<Rightarrow> form_errors" where
  "newErrors mc headline_length initialSituation_length implementation_length results_length =
     \<lparr> err_headline = headline_length < min_headline mc,
       err_initialSituation = initialSituation_length < min_initialSituation mc,
       err_implementation = implementation_length < min_implementation mc,
       err_results = results_length < min_results mc \<rparr>"

definition validation_effect :: "min_chars \<Rightarrow> form_state \<Rightarrow> form_state" where
  "validation_effect mc s =
     (let ne = newErrors mc (length (headline s)) (length (initialSituation s))
                 (length (implementation s)) (length (results s))
      in s\<lparr> errors := ne, isValid := \<not> some (\<lambda>error. error) (Object_values ne) \<rparr>)"


text \<open>
  The same body with its way of failing written out: the four \<open>.length\<close> reads happen
  in the order of the object literal, and a read that throws ends the body before either
  setter is called. The state variables are created by \<open>useState('')\<close> and written only
  by \<open>onChangeText\<close>, so each of them always holds a string (\<open>Some\<close>); a field the user
  has left out holds the empty string.
\<close>

definition validation_effect_body ::
  "min_chars \<Rightarrow> jsstring option \<Rightarrow> jsstring option \<Rightarrow> jsstring option \<Rightarrow> jsstring option
     \<Rightarrow> js_error + (form_errors \<times> bool)" where
  "validation_effect_body mc h i m r =
     (case js_length h of Inl e \<Rightarrow> Inl e | Inr hl \<Rightarrow>
      case js_length i of Inl e \<Rightarrow> Inl e | Inr il \<Rightarrow>
      case js_length m of Inl e \<Rightarrow> Inl e | Inr ml \<Rightarrow>
      case js_length r of Inl e \<Rightarrow> Inl e | Inr rl \<Rightarrow>
        (let ne = newErrors mc hl il ml rl
         in Inr (ne, \<not> some (\<lambda>error. error) (Object_values ne))))"

subsection \<open>Submitting\<close>

text \<open>
  \<open>handleSubmit\<close> calls no setter: it returns the state it was given, and the one alert
  it raises. In the valid branch the source has only the comment
  \<^verbatim>\<open>// Here the data would be saved/sent\<close> before the alert.
\<close>

definition handleSubmit :: "form_state \<Rightarrow> form_state \<times> effect list" where
  "handleSubmit s =
     (if isValid s
      then (s, [Alert_alert (js ''Success'')
                  (js ''Your case study has been created successfully!'')
                  [(js ''OK'', router_push (js ''/''))]])
      else (s, [Alert_alert (js ''Incomplete inputs'')
                  (js ''Please fill all fields with the minimum number of characters.'')
                  []]))"

subsection \<open>The progress bar under a field\<close>

text \<open>
  \<open>renderCharacterProgress\<close> computes \<open>progress\<close> and from it the two style values of
  the bar: its colour, modelled here, and its width \<open>progress * 100\<close> percent. It is
  called with \<open>value.length\<close> and an entry of \<open>MIN_CHARS\<close>, so both arguments are
  non-negative integers.
\<close>

datatype colour = colors_success | colors_primary

definition progress :: "nat \<Rightarrow> nat \<Rightarrow> jsnum" where
  "progress currentLength minChars = Math_min (js_div currentLength minChars) (Num 1)"

definition progressBar_backgroundColor :: "nat \<Rightarrow> nat \<Rightarrow> colour" where
  "progressBar_backgroundColor currentLength minChars =
     (if js_ge (progress currentLength minChars) (Num 1) then colors_success else colors_primary)"

subsection \<open>Example states\<close>

text \<open>
  The effect runs once when the screen is mounted, on the empty fields. \<open>filled\<close> is the
  state after the user has then typed \<open>h\<close>, \<open>i\<close>, \<open>m\<close> and \<open>r\<close> letters \<open>a\<close> into the
  four tracked fields, before the effect has run again: the stored flags are still those
  of the empty form.
\<close>

definition mounted_state :: form_state where
  "mounted_state = validation_effect MIN_CHARS initial_state"

definition filled :: "nat \<Rightarrow> nat \<Rightarrow> nat \<Rightarrow> nat \<Rightarrow> form_state" where
  "filled h i m r =
     mounted_state\<lparr> headline := replicate h 0x61, initialSituation := replicate i 0x61,
                    implementation := replicate m 0x61, results := replicate r 0x61 \<rparr>"

section \<open>app/wizard1.tsx\<close>

definition wizard1_isValid :: "jsstring \<Rightarrow> bool" where
  "wizard1_isValid answer = (0 < length (trim answer))"

definition handleNext :: "jsstring \<Rightarrow> effect list" where
  "handleNext answer =
     (if truthy (trim answer) then [console_log [js ''Antwort:'', answer]] else [])"

text \<open>The Next button: \<open>onPress={handleNext}\<close>, \<open>disabled={!isValid}\<close>.\<close>

definition next_disabled :: "jsstring \<Rightarrow> bool" where
  "next_disabled answer = (\<not> wizard1_isValid answer)"

definition press_next :: "jsstring \<Rightarrow> effect list" where
  "press_next answer = (if next_disabled answer then [] else handleNext answer)"

section \<open>Properties of the validation effect\<close>

lemma error_flag_validation:
  "error_flag f (errors (validation_effect mc s)) = (length (content f s) < threshold mc f)"
  by (cases f) (simp_all add: validation_effect_def newErrors_def Let_def)

lemma isValid_validation:
  "isValid (validation_effect mc s) =
     (min_headline mc \<le> length (headline s) \<and>
      min_initialSituation mc \<le> length (initialSituation s) \<and>
      min_implementation mc \<le> length (implementation s) \<and>
      min_results mc \<le> length (results s))"
  by (auto simp add: validation_effect_def newErrors_def Let_def some_def Object_values_def)

lemma satisfied_validation:
  "satisfied f (validation_effect mc s) = (threshold mc f \<le> length (content f s))"
  by (simp add: satisfied_def error_flag_validation not_less)

lemma validation_effect_setRoi:
  "validation_effect mc (setRoi r s) = setRoi r (validation_effect mc s)"
  by (simp add: validation_effect_def setRoi_def Let_def)

lemma setRoi_frame:
  "errors (setRoi r s) = errors s" "isValid (setRoi r s) = isValid s"
  by (simp_all add: setRoi_def)

lemma content_setContent: "content f (setContent f v s) = v"
  by (cases f) simp_all

lemma errors_validation:
  "errors (validation_effect mc s) =
     newErrors mc (length (headline s)) (length (initialSituation s))
       (length (implementation s)) (length (results s))"
  by (simp add: validation_effect_def Let_def)

lemma filled_lengths:
  "length (headline (filled h i m r)) = h"
  "length (initialSituation (filled h i m r)) = i"
  "length (implementation (filled h i m r)) = m"
  "length (results (filled h i m r)) = r"
  by (simp_all add: filled_def)

lemma mounted_state_flags:
  "errors mounted_state =
     \<lparr> err_headline = True, err_initialSituation = True,
       err_implementation = True, err_results = True \<rparr>"
  "isValid mounted_state = False"
  "headline mounted_state = []" "initialSituation mounted_state = []"
  "implementation mounted_state = []" "results mounted_state = []" "roi mounted_state = []"
  by (simp_all add: mounted_state_def validation_effect_def Let_def newErrors_def some_def
        Object_values_def initial_state_def MIN_CHARS_def)

lemma MIN_CHARS_values:
  "min_headline MIN_CHARS = 30" "min_initialSituation MIN_CHARS = 200"
  "min_implementation MIN_CHARS = 300" "min_results MIN_CHARS = 150"
  by (simp_all add: MIN_CHARS_def)

text \<open>
  C1. For every tracked field \<open>f\<close> with configured minimum \<open>m\<close> and content \<open>c\<close>, the
  satisfied flag computed by the validation effect is true exactly when
  \<open>length c \<ge> m\<close>, and the error flag exactly when \<open>length c < m\<close>; so a content of
  length exactly \<open>m\<close> is satisfied and one of length \<open>m - 1\<close> (one unit short of \<open>m\<close>)
  is not.
\<close>

theorem C1_satisfied_iff_length:
  "(satisfied f (validation_effect mc s) \<longleftrightarrow> threshold mc f \<le> length (content f s)) \<and>
   (error_flag f (errors (validation_effect mc s)) \<longleftrightarrow> length (content f s) < threshold mc f) \<and>
   (length (content f s) = threshold mc f \<longrightarrow> satisfied f (validation_effect mc s)) \<and>
   (length (content f s) + 1 = threshold mc f \<longrightarrow> \<not> satisfied f (validation_effect mc s))"
  by (auto simp add: satisfied_def error_flag_validation)

theorem C1_witness:
  "length (content InitialSituation (filled 30 200 300 150)) = threshold MIN_CHARS InitialSituation \<and>
   satisfied InitialSituation (validation_effect MIN_CHARS (filled 30 200 300 150)) \<and>
   length (content InitialSituation (filled 30 199 300 150)) + 1 = threshold MIN_CHARS InitialSituation \<and>
   \<not> satisfied InitialSituation (validation_effect MIN_CHARS (filled 30 199 300 150))"
  using C1_satisfied_iff_length [of InitialSituation MIN_CHARS "filled 30 200 300 150"]
        C1_satisfied_iff_length [of InitialSituation MIN_CHARS "filled 30 199 300 150"]
  by (simp add: filled_lengths MIN_CHARS_values)

text \<open>
  C2. The aggregate flag computed by the validation effect is true exactly when the four
  required fields (headline, initial situation, implementation, results) are all
  satisfied. The optional ROI field does not take part: whatever is stored in it, the
  empty string included, the error flags and the aggregate are the same, so the aggregate
  is true whenever the four required fields are satisfied.
\<close>

theorem C2_aggregate_required_only:
  "(isValid (validation_effect mc s) \<longleftrightarrow>
      satisfied Headline (validation_effect mc s) \<and>
      satisfied InitialSituation (validation_effect mc s) \<and>
      satisfied Implementation (validation_effect mc s) \<and>
      satisfied Results (validation_effect mc s)) \<and>
   errors (validation_effect mc (setRoi r s)) = errors (validation_effect mc s) \<and>
   isValid (validation_effect mc (setRoi r s)) = isValid (validation_effect mc s) \<and>
   (satisfied Headline (validation_effect mc s) \<and>
    satisfied InitialSituation (validation_effect mc s) \<and>
    satisfied Implementation (validation_effect mc s) \<and>
    satisfied Results (validation_effect mc s) \<longrightarrow>
      isValid (validation_effect mc (setRoi r s)) \<and>
      isValid (validation_effect mc (setRoi [] s)))"
  by (simp add: satisfied_validation isValid_validation validation_effect_setRoi setRoi_frame)

theorem C2_witness:
  "satisfied Headline (validation_effect MIN_CHARS (filled 30 200 300 150)) \<and>
   satisfied InitialSituation (validation_effect MIN_CHARS (filled 30 200 300 150)) \<and>
   satisfied Implementation (validation_effect MIN_CHARS (filled 30 200 300 150)) \<and>
   satisfied Results (validation_effect MIN_CHARS (filled 30 200 300 150)) \<and>
   isValid (validation_effect MIN_CHARS (setRoi [] (filled 30 200 300 150)))"
  using C2_aggregate_required_only [of MIN_CHARS "filled 30 200 300 150" "[]"]
  by (simp add: satisfied_validation filled_lengths MIN_CHARS_values)

text \<open>
  C3. With the thresholds of \<open>MIN_CHARS\<close> (headline 30, initial situation 200,
  implementation 300, results 150): while the initial situation has 199 units its flag is
  false and so is the aggregate; once one more unit is appended (length 200) its flag is
  true, and if headline, implementation and results meet their thresholds as well, the
  aggregate is true.
\<close>

theorem C3_scenario_199_200:
  assumes "length (initialSituation s) = 199"
  shows "MIN_CHARS = \<lparr> min_headline = 30, min_initialSituation = 200,
                       min_implementation = 300, min_results = 150 \<rparr> \<and>
         \<not> satisfied InitialSituation (validation_effect MIN_CHARS s) \<and>
         \<not> isValid (validation_effect MIN_CHARS s) \<and>
         satisfied InitialSituation
           (validation_effect MIN_CHARS (setContent InitialSituation (initialSituation s @ [c]) s)) \<and>
         (30 \<le> length (headline s) \<and> 300 \<le> length (implementation s) \<and>
          150 \<le> length (results s) \<longrightarrow>
            isValid (validation_effect MIN_CHARS
                       (setContent InitialSituation (initialSituation s @ [c]) s)))"
  using assms
  by (simp add: satisfied_validation isValid_validation MIN_CHARS_values)

theorem C3_witness:
  "length (initialSituation (filled 30 199 300 150)) = 199 \<and>
   30 \<le> length (headline (filled 30 199 300 150)) \<and>
   300 \<le> length (implementation (filled 30 199 300 150)) \<and>
   150 \<le> length (results (filled 30 199 300 150)) \<and>
   \<not> isValid (validation_effect MIN_CHARS (filled 30 199 300 150)) \<and>
   isValid (validation_effect MIN_CHARS
     (setContent InitialSituation (initialSituation (filled 30 199 300 150) @ [0x62])
        (filled 30 199 300 150)))"
  using C3_scenario_199_200 [of "filled 30 199 300 150" "0x62"]
  by (simp add: filled_lengths)

text \<open>
  C4. Monotonicity: for a tracked field \<open>f\<close> and fixed thresholds, if \<open>f\<close> is satisfied
  for its content \<open>c\<close> then it is satisfied for \<open>c @ suffix\<close> too: appending never turns
  the flag from true to false.
\<close>

theorem C4_append_monotone:
  "satisfied f (validation_effect mc s) \<Longrightarrow>
   satisfied f (validation_effect mc (setContent f (content f s @ suffix) s))"
  by (simp add: satisfied_validation content_setContent)

theorem C4_witness:
  "satisfied Headline (validation_effect MIN_CHARS (filled 30 0 0 0)) \<and>
   satisfied Headline (validation_effect MIN_CHARS
     (setContent Headline (content Headline (filled 30 0 0 0) @ [0x62, 0x63]) (filled 30 0 0 0)))"
proof -
  have h: "satisfied Headline (validation_effect MIN_CHARS (filled 30 0 0 0))"
    by (simp add: satisfied_validation filled_lengths MIN_CHARS_values)
  show ?thesis
    using h C4_append_monotone [OF h, of "[0x62, 0x63]"] by simp
qed

text \<open>
  C5. The validation effect is a function of the field contents alone and writes nothing
  but the error flags and the aggregate: two runs on states with equal field contents
  give the same error flags and the same aggregate (whatever flags were stored before),
  the contents are left as they were, and running it again on its own result changes
  nothing.
\<close>

theorem C5_pure_deterministic:
  "(headline s = headline s' \<and> initialSituation s = initialSituation s' \<and>
    implementation s = implementation s' \<and> results s = results s' \<and> roi s = roi s' \<longrightarrow>
      errors (validation_effect mc s) = errors (validation_effect mc s') \<and>
      isValid (validation_effect mc s) = isValid (validation_effect mc s')) \<and>
   validation_effect mc s =
     s\<lparr> errors := errors (validation_effect mc s), isValid := isValid (validation_effect mc s) \<rparr> \<and>
   validation_effect mc (validation_effect mc s) = validation_effect mc s"
  by (simp add: validation_effect_def Let_def)

theorem C5_witness:
  "headline (filled 30 200 300 150) = headline (validation_effect MIN_CHARS (filled 30 200 300 150)) \<and>
   errors (validation_effect MIN_CHARS (filled 30 200 300 150)) =
     errors (validation_effect MIN_CHARS (validation_effect MIN_CHARS (filled 30 200 300 150))) \<and>
   isValid (validation_effect MIN_CHARS (filled 30 200 300 150)) =
     isValid (validation_effect MIN_CHARS (validation_effect MIN_CHARS (filled 30 200 300 150)))"
  using C5_pure_deterministic [of "filled 30 200 300 150"
          "validation_effect MIN_CHARS (filled 30 200 300 150)" MIN_CHARS]
  by (simp add: validation_effect_def Let_def)

section \<open>Totality, submitting\<close>

lemma validation_effect_body_present:
  "validation_effect_body mc (Some h) (Some i) (Some m) (Some r) =
     Inr (newErrors mc (length h) (length i) (length m) (length r),
          min_headline mc \<le> length h \<and> min_initialSituation mc \<le> length i \<and>
          min_implementation mc \<le> length m \<and> min_results mc \<le> length r)"
  by (auto simp add: validation_effect_body_def js_length_def Let_def newErrors_def some_def
        Object_values_def)

text \<open>
  C6. The validator is total and has no error condition. For all contents of the four
  tracked fields, the empty string of a field left out included (it counts as length 0),
  and for every table of thresholds, zero thresholds included, the body of the validation
  effect throws nothing and returns error flags and an aggregate, each resolved by the
  length comparison; this is what the effect stores. On the freshly mounted form, where
  no field has content yet, all four error flags are on and the aggregate is off.
\<close>

theorem C6_total_no_error_conditions:
  "validation_effect_body mc (Some h) (Some i) (Some m) (Some r) =
     Inr (\<lparr> err_headline = length h < min_headline mc,
            err_initialSituation = length i < min_initialSituation mc,
            err_implementation = length m < min_implementation mc,
            err_results = length r < min_results mc \<rparr>,
          min_headline mc \<le> length h \<and> min_initialSituation mc \<le> length i \<and>
          min_implementation mc \<le> length m \<and> min_results mc \<le> length r) \<and>
   validation_effect_body mc (Some (headline s)) (Some (initialSituation s))
       (Some (implementation s)) (Some (results s)) =
     Inr (errors (validation_effect mc s), isValid (validation_effect mc s)) \<and>
   validation_effect_body mc (Some []) (Some []) (Some []) (Some []) =
     Inr (\<lparr> err_headline = 0 < min_headline mc,
            err_initialSituation = 0 < min_initialSituation mc,
            err_implementation = 0 < min_implementation mc,
            err_results = 0 < min_results mc \<rparr>,
          min_headline mc = 0 \<and> min_initialSituation mc = 0 \<and>
          min_implementation mc = 0 \<and> min_results mc = 0) \<and>
   validation_effect_body
       \<lparr> min_headline = 0, min_initialSituation = 0, min_implementation = 0, min_results = 0 \<rparr>
       (Some h) (Some i) (Some m) (Some r) =
     Inr (\<lparr> err_headline = False, err_initialSituation = False,
            err_implementation = False, err_results = False \<rparr>, True) \<and>
   validation_effect_body MIN_CHARS (Some (headline initial_state))
       (Some (initialSituation initial_state)) (Some (implementation initial_state))
       (Some (results initial_state)) =
     Inr (\<lparr> err_headline = True, err_initialSituation = True,
            err_implementation = True, err_results = True \<rparr>, False) \<and>
   errors (validation_effect MIN_CHARS initial_state) =
     \<lparr> err_headline = True, err_initialSituation = True,
       err_implementation = True, err_results = True \<rparr> \<and>
   isValid (validation_effect MIN_CHARS initial_state) = False"
  by (simp add: validation_effect_body_present newErrors_def errors_validation isValid_validation
        initial_state_def MIN_CHARS_values)

lemma snd_handleSubmit:
  "snd (handleSubmit s) =
     (if isValid s
      then [Alert_alert (js ''Success'') (js ''Your case study has been created successfully!'')
              [(js ''OK'', router_push (js ''/''))]]
      else [Alert_alert (js ''Incomplete inputs'')
              (js ''Please fill all fields with the minimum number of characters.'') []])"
  by (simp add: handleSubmit_def)

lemma headline_validation: "headline (validation_effect mc s) = headline s"
  by (simp add: validation_effect_def Let_def)

lemma isValid_filled:
  "isValid (validation_effect MIN_CHARS (filled h i m r)) =
     (30 \<le> h \<and> 200 \<le> i \<and> 300 \<le> m \<and> 150 \<le> r)"
  by (simp add: isValid_validation filled_lengths MIN_CHARS_values)

text \<open>
  A valid submission hands no field contents to anything: the only call to the host is the
  fixed Success alert, the same for two valid forms with different headlines.
\<close>

theorem C7_nothing_handed_over_counterexample:
  "isValid (validation_effect MIN_CHARS (filled 30 200 300 150)) \<and>
   isValid (validation_effect MIN_CHARS (filled 31 200 300 150)) \<and>
   headline (validation_effect MIN_CHARS (filled 30 200 300 150)) \<noteq>
     headline (validation_effect MIN_CHARS (filled 31 200 300 150)) \<and>
   snd (handleSubmit (validation_effect MIN_CHARS (filled 30 200 300 150))) =
     [Alert_alert (js ''Success'') (js ''Your case study has been created successfully!'')
        [(js ''OK'', router_push (js ''/''))]] \<and>
   snd (handleSubmit (validation_effect MIN_CHARS (filled 31 200 300 150))) =
     snd (handleSubmit (validation_effect MIN_CHARS (filled 30 200 300 150)))"
proof -
  have "length (headline (filled 30 200 300 150)) \<noteq> length (headline (filled 31 200 300 150))"
    by (simp only: filled_lengths)
  then have "headline (filled 30 200 300 150) \<noteq> headline (filled 31 200 300 150)"
    by metis
  then show ?thesis
    by (simp add: snd_handleSubmit isValid_filled headline_validation)
qed

text \<open>
  C7 (as amended). \<open>handleSubmit\<close> raises exactly one alert, chosen by the aggregate
  flag alone: the Success alert (whose OK button navigates to \<open>/\<close>) when the flag is
  true, the Incomplete-inputs alert when it is false. The two alerts differ, and two states
  with the same flag give the same calls, so in neither branch are field contents handed
  to a collaborator.
\<close>

theorem C7_submit_alerts:
  "(isValid s \<longrightarrow>
      snd (handleSubmit s) =
        [Alert_alert (js ''Success'') (js ''Your case study has been created successfully!'')
           [(js ''OK'', router_push (js ''/''))]]) \<and>
   (\<not> isValid s \<longrightarrow>
      snd (handleSubmit s) =
        [Alert_alert (js ''Incomplete inputs'')
           (js ''Please fill all fields with the minimum number of characters.'') []]) \<and>
   (isValid s = isValid s' \<longrightarrow> snd (handleSubmit s) = snd (handleSubmit s')) \<and>
   Alert_alert (js ''Success'') (js ''Your case study has been created successfully!'')
        [(js ''OK'', router_push (js ''/''))] \<noteq>
     Alert_alert (js ''Incomplete inputs'')
        (js ''Please fill all fields with the minimum number of characters.'') []"
  by (simp add: snd_handleSubmit)

theorem C7_witness:
  "isValid (validation_effect MIN_CHARS (filled 30 200 300 150)) \<and>
   snd (handleSubmit (validation_effect MIN_CHARS (filled 30 200 300 150))) =
     [Alert_alert (js ''Success'') (js ''Your case study has been created successfully!'')
        [(js ''OK'', router_push (js ''/''))]] \<and>
   \<not> isValid (validation_effect MIN_CHARS (filled 30 199 300 150)) \<and>
   snd (handleSubmit (validation_effect MIN_CHARS (filled 30 199 300 150))) =
     [Alert_alert (js ''Incomplete inputs'')
        (js ''Please fill all fields with the minimum number of characters.'') []] \<and>
   isValid (validation_effect MIN_CHARS (filled 30 200 300 150)) =
     isValid (validation_effect MIN_CHARS (filled 31 200 300 150)) \<and>
   snd (handleSubmit (validation_effect MIN_CHARS (filled 30 200 300 150))) =
     snd (handleSubmit (validation_effect MIN_CHARS (filled 31 200 300 150)))"
  using C7_submit_alerts [of "validation_effect MIN_CHARS (filled 30 200 300 150)"
          "validation_effect MIN_CHARS (filled 31 200 300 150)"]
        C7_submit_alerts [of "validation_effect MIN_CHARS (filled 30 199 300 150)"
          "validation_effect MIN_CHARS (filled 30 199 300 150)"]
  by (auto simp add: isValid_filled)

text \<open>
  C9. \<open>handleSubmit\<close> leaves the form state as it was in both branches: the five field
  contents, the error flags and the aggregate flag are unchanged.
\<close>

theorem C9_submit_frame:
  "fst (handleSubmit s) = s \<and>
   headline (fst (handleSubmit s)) = headline s \<and>
   initialSituation (fst (handleSubmit s)) = initialSituation s \<and>
   implementation (fst (handleSubmit s)) = implementation s \<and>
   results (fst (handleSubmit s)) = results s \<and>
   roi (fst (handleSubmit s)) = roi s \<and>
   errors (fst (handleSubmit s)) = errors s \<and>
   isValid (fst (handleSubmit s)) = isValid s"
  by (simp add: handleSubmit_def)

section \<open>The wizard question screen\<close>

lemma trim_eq_Nil_iff: "trim a = [] \<longleftrightarrow> list_all js_whitespace a"
proof (cases "dropWhile js_whitespace a")
  case Nil
  have "trim a = []" unfolding trim_def Nil by simp
  moreover have "list_all js_whitespace a" using Nil by (simp add: list_all_iff)
  ultimately show ?thesis by simp
next
  case (Cons x xs)
  then have x: "\<not> js_whitespace x" using hd_dropWhile[of js_whitespace a] by simp
  have "x \<in> set (dropWhile js_whitespace a)" using Cons by simp
  then have "x \<in> set a" using set_dropWhileD by fast
  with x have "\<not> list_all js_whitespace a" by (auto simp add: list_all_iff)
  moreover have "trim a \<noteq> []" using x Cons by (auto simp add: trim_def)
  ultimately show ?thesis by simp
qed

lemma list_ex_not_whitespace:
  "list_ex (\<lambda>c. \<not> js_whitespace c) a \<longleftrightarrow> \<not> list_all js_whitespace a"
  by (simp add: list_ex_iff list_all_iff)

lemma wizard1_isValid_iff:
  "wizard1_isValid answer \<longleftrightarrow> list_ex (\<lambda>c. \<not> js_whitespace c) answer"
  by (simp add: wizard1_isValid_def trim_eq_Nil_iff list_ex_not_whitespace)

lemma handleNext_eq:
  "handleNext answer =
     (if list_ex (\<lambda>c. \<not> js_whitespace c) answer
      then [console_log [js ''Antwort:'', answer]] else [])"
  by (simp add: handleNext_def truthy_def trim_eq_Nil_iff list_ex_not_whitespace)

text \<open>
  C8. In the wizard question screen the Next button is enabled, and its handler logs the
  answer, exactly when the answer holds a unit that is not white space, that is, when the
  trimmed answer is not empty. An answer of white space only is invalid there, although
  the case-study validation counts it by its raw length: such an answer of at least the
  headline's minimum length satisfies the headline field.
\<close>

theorem C8_next_iff_non_whitespace:
  "(wizard1_isValid answer \<longleftrightarrow> 0 < length (trim answer)) \<and>
   (\<not> next_disabled answer \<longleftrightarrow> list_ex (\<lambda>c. \<not> js_whitespace c) answer) \<and>
   (handleNext answer = [console_log [js ''Antwort:'', answer]] \<longleftrightarrow>
      list_ex (\<lambda>c. \<not> js_whitespace c) answer) \<and>
   (handleNext answer = [] \<longleftrightarrow> list_all js_whitespace answer) \<and>
   (press_next answer = [console_log [js ''Antwort:'', answer]] \<longleftrightarrow>
      list_ex (\<lambda>c. \<not> js_whitespace c) answer) \<and>
   (list_all js_whitespace answer \<and> min_headline mc \<le> length answer \<longrightarrow>
      \<not> wizard1_isValid answer \<and>
      satisfied Headline (validation_effect mc (setContent Headline answer s)))"
proof (intro conjI)
  show "wizard1_isValid answer \<longleftrightarrow> 0 < length (trim answer)"
    by (simp add: wizard1_isValid_def)
  show "\<not> next_disabled answer \<longleftrightarrow> list_ex (\<lambda>c. \<not> js_whitespace c) answer"
    by (simp add: next_disabled_def wizard1_isValid_iff)
  show "handleNext answer = [console_log [js ''Antwort:'', answer]] \<longleftrightarrow>
          list_ex (\<lambda>c. \<not> js_whitespace c) answer"
    by (simp add: handleNext_eq)
  show "handleNext answer = [] \<longleftrightarrow> list_all js_whitespace answer"
    by (simp add: handleNext_eq list_ex_not_whitespace)
  show "press_next answer = [console_log [js ''Antwort:'', answer]] \<longleftrightarrow>
          list_ex (\<lambda>c. \<not> js_whitespace c) answer"
    by (simp add: press_next_def next_disabled_def wizard1_isValid_iff handleNext_eq)
  show "list_all js_whitespace answer \<and> min_headline mc \<le> length answer \<longrightarrow>
          \<not> wizard1_isValid answer \<and>
          satisfied Headline (validation_effect mc (setContent Headline answer s))"
    by (simp add: wizard1_isValid_iff list_ex_not_whitespace satisfied_validation)
qed

lemma js_whitespace_space: "js_whitespace 0x20"
  by (simp add: js_whitespace_def)

lemma not_js_whitespace_a: "\<not> js_whitespace 0x61"
  by (simp add: js_whitespace_def)

theorem C8_witness:
  "list_all js_whitespace (replicate 30 0x20) \<and>
   min_headline MIN_CHARS \<le> length (replicate 30 (0x20 :: 16 word)) \<and>
   \<not> wizard1_isValid (replicate 30 0x20) \<and>
   satisfied Headline
     (validation_effect MIN_CHARS (setContent Headline (replicate 30 0x20) initial_state)) \<and>
   handleNext (replicate 30 0x20) = [] \<and>
   handleNext [0x20, 0x61] = [console_log [js ''Antwort:'', [0x20, 0x61]]]"
  using C8_next_iff_non_whitespace [of "replicate 30 0x20" MIN_CHARS initial_state]
        C8_next_iff_non_whitespace [of "[0x20, 0x61]" MIN_CHARS initial_state]
  by (simp add: trim_eq_Nil_iff list_all_iff js_whitespace_space not_js_whitespace_a
        MIN_CHARS_values)

section \<open>The progress bar\<close>

lemma round_half_even_le: "x \<le> of_int n \<Longrightarrow> round_half_even x \<le> n"
  unfolding round_half_even_def Let_def
  by (auto simp add: floor_le_iff le_floor_iff)

lemma round_half_even_ge: "of_int n \<le> x \<Longrightarrow> n \<le> round_half_even x"
  unfolding round_half_even_def Let_def
  by (auto simp add: le_floor_iff) linarith+

lemma pow2_bitlen_rat:
  assumes "0 < a"
  shows "(2::rat) powi (bitlen a - 1) \<le> of_int a" "of_int a < (2::rat) powi (bitlen a)"
proof -
  from bitlen_bounds[OF assms] have 1: "2 ^ nat (bitlen a - 1) \<le> a" and 2: "a < 2 ^ nat (bitlen a)"
    by auto
  have b1: "1 \<le> bitlen a" using assms by (auto simp: bitlen_alt_def)
  have "(of_int (2 ^ nat (bitlen a - 1)) :: rat) \<le> of_int a" using 1 by (simp only: of_int_le_iff)
  then show "(2::rat) powi (bitlen a - 1) \<le> of_int a" using b1 by (simp add: power_int_def)
  have "(of_int a :: rat) < of_int (2 ^ nat (bitlen a))" using 2 by (simp only: of_int_less_iff)
  then show "of_int a < (2::rat) powi (bitlen a)" using b1 by (simp add: power_int_def)
qed

lemma ilog2_bounds:
  assumes "0 < q"
  shows "2 powi (ilog2 q) \<le> q \<and> q < 2 powi (ilog2 q + 1)"
proof -
  obtain a b where ab: "quotient_of q = (a, b)" by (cases "quotient_of q")
  have b: "0 < b" using ab quotient_of_denom_pos by blast
  have q: "q = of_int a / of_int b" using ab by (simp add: quotient_of_div)
  have a: "0 < a" using assms b q by (simp add: zero_less_divide_iff)
  note A = pow2_bitlen_rat[OF a] and B = pow2_bitlen_rat[OF b]
  let ?e0 = "bitlen a - bitlen b"
  have lo: "(2::rat) powi (?e0 - 1) \<le> q"
  proof -
    have "(2::rat) powi (?e0 - 1) * of_int b \<le> 2 powi (?e0 - 1) * 2 powi (bitlen b)"
      using B(2) by (intro mult_left_mono) auto
    also have "\<dots> = 2 powi (bitlen a - 1)" by (simp add: power_int_add[symmetric])
    also have "\<dots> \<le> of_int a" by (rule A(1))
    finally show ?thesis using b by (simp add: q pos_le_divide_eq)
  qed
  have hi: "q < (2::rat) powi (?e0 + 1)"
  proof -
    have "of_int a < (2::rat) powi (bitlen a)" by (rule A(2))
    also have "\<dots> = 2 powi (?e0 + 1) * 2 powi (bitlen b - 1)" by (simp add: power_int_add[symmetric])
    also have "\<dots> \<le> 2 powi (?e0 + 1) * of_int b"
      using B(1) by (intro mult_left_mono) auto
    finally show ?thesis using b by (simp add: q pos_divide_less_eq)
  qed
  show ?thesis
  proof (cases "2 powi ?e0 \<le> q")
    case True
    then have "ilog2 q = ?e0" by (simp add: ilog2_def ab)
    with True hi show ?thesis by simp
  next
    case False
    then have "ilog2 q = ?e0 - 1" by (simp add: ilog2_def ab)
    with False lo show ?thesis by simp
  qed
qed

lemma double_round_ge_1:
  assumes "1 \<le> q"
  shows "1 \<le> double_round q"
proof -
  have q0: "0 < q" using assms by simp
  let ?e = "ilog2 q"
  from ilog2_bounds[OF q0] have lo: "2 powi ?e \<le> q" and hi: "q < 2 powi (?e + 1)" by auto
  have e: "0 \<le> ?e"
  proof (rule ccontr)
    assume "\<not> 0 \<le> ?e"
    then have "?e + 1 \<le> 0" by simp
    then have "(2::rat) powi (?e + 1) \<le> 2 powi 0" by (intro power_int_increasing) auto
    with hi assms show False by simp
  qed
  have "(of_int (2 ^ 52) :: rat) = 2 powi ?e * 2 powi (52 - ?e)"
    by (simp add: power_int_add[symmetric])
  also have "\<dots> \<le> q * 2 powi (52 - ?e)" using lo by (intro mult_right_mono) auto
  finally have "2 ^ 52 \<le> round_half_even (q * 2 powi (52 - ?e))" by (rule round_half_even_ge)
  then have "(of_int (2 ^ 52) :: rat) \<le> of_int (round_half_even (q * 2 powi (52 - ?e)))"
    by (simp only: of_int_le_iff)
  then have m: "(of_int (2 ^ 52) :: rat) * 2 powi (?e - 52)
      \<le> of_int (round_half_even (q * 2 powi (52 - ?e))) * 2 powi (?e - 52)"
    by (intro mult_right_mono) auto
  have "(1::rat) \<le> 2 powi ?e" using e by (simp add: one_le_power_int)
  also have "\<dots> = (of_int (2 ^ 52) :: rat) * 2 powi (?e - 52)"
    by (simp add: power_int_diff)
  also note m
  finally show ?thesis using q0 by (simp add: double_round_def Let_def)
qed

lemma double_round_less_1:
  assumes "0 \<le> q" "q \<le> 1 - 1 / 2 ^ 53"
  shows "double_round q < 1"
proof (cases "q = 0")
  case True then show ?thesis by (simp add: double_round_def)
next
  case False
  then have q0: "0 < q" using assms by simp
  let ?e = "ilog2 q"
  let ?m = "round_half_even (q * 2 powi (52 - ?e))"
  from ilog2_bounds[OF q0] have lo: "2 powi ?e \<le> q" and hi: "q < 2 powi (?e + 1)" by auto
  have dr: "double_round q = of_int ?m * 2 powi (?e - 52)"
    using False by (simp add: double_round_def Let_def)
  have q1: "q < 1" using assms by (simp add: field_simps)
  have e: "?e \<le> -1"
  proof (rule ccontr)
    assume "\<not> ?e \<le> -1"
    then have "0 \<le> ?e" by simp
    then have "(1::rat) \<le> 2 powi ?e" by (simp add: one_le_power_int)
    with lo q1 show False by simp
  qed
  show ?thesis
  proof (cases "?e = -1")
    case True
    have "q * 2 powi (52 - ?e) = q * 2 ^ 53" using True by (simp add: power_int_def)
    also have "\<dots> \<le> (1 - 1 / 2 ^ 53) * 2 ^ 53" using assms(2) by (intro mult_right_mono) auto
    also have "\<dots> = of_int (2 ^ 53 - 1)" by simp
    finally have "?m \<le> 2 ^ 53 - 1" by (rule round_half_even_le)
    then have "(of_int ?m :: rat) \<le> of_int (2 ^ 53 - 1)" by (simp only: of_int_le_iff)
    then have "(of_int ?m :: rat) * 2 powi (?e - 52) \<le> of_int (2 ^ 53 - 1) * 2 powi (?e - 52)"
      by (intro mult_right_mono) auto
    also have "\<dots> < 1" using True by (simp add: power_int_def power_one_over)
    finally show ?thesis by (simp add: dr)
  next
    case False
    with e have e2: "?e + 1 \<le> -1" by simp
    have "q * 2 powi (52 - ?e) \<le> 2 powi (?e + 1) * 2 powi (52 - ?e)"
      using hi by (intro mult_right_mono) auto
    also have "\<dots> = of_int (2 ^ 53)" by (simp add: power_int_add[symmetric])
    finally have "?m \<le> 2 ^ 53" by (rule round_half_even_le)
    then have "(of_int ?m :: rat) \<le> of_int (2 ^ 53)" by (simp only: of_int_le_iff)
    then have "(of_int ?m :: rat) * 2 powi (?e - 52) \<le> of_int (2 ^ 53) * 2 powi (?e - 52)"
      by (intro mult_right_mono) auto
    also have "\<dots> = 2 powi (?e + 1)" by (simp add: power_int_diff power_int_add)
    also have "\<dots> \<le> 2 powi (-1)" using e2 by (intro power_int_increasing) auto
    also have "\<dots> < 1" by (simp add: power_int_def)
    finally show ?thesis by (simp add: dr)
  qed
qed

text \<open>The rounding gives the doubles an engine prints for these quotients.\<close>

lemma double_round_examples:
  "double_round (1 / 3) = 6004799503160661 / 2 ^ 54"
  "double_round (1 / 10) = 3602879701896397 / 2 ^ 55"
  "double_round (199 / 200) = 8962163258467287 / 2 ^ 53"
  "double_round (3 / 2) = 3 / 2"
  by code_simp+

lemma quotient_below_1:
  assumes "n < m" "n < 2 ^ 53"
  shows "(of_nat n / of_nat m :: rat) \<le> 1 - 1 / 2 ^ 53"
proof -
  have m0: "(0::rat) < of_nat m" using assms by simp
  have "Suc n \<le> m" using assms by simp
  then have "(of_nat (Suc n) :: rat) \<le> of_nat m" by (simp only: of_nat_le_iff)
  then have 1: "(of_nat n + 1 :: rat) \<le> of_nat m" by simp
  have "Suc n \<le> 2 ^ 53" using assms by simp
  then have "(of_nat (Suc n) :: rat) \<le> of_nat (2 ^ 53)" by (simp only: of_nat_le_iff)
  then have 2: "(of_nat n + 1 :: rat) \<le> 2 ^ 53" by simp
  have "(of_nat n / of_nat m :: rat) \<le> of_nat n / (of_nat n + 1)"
    using 1 by (intro divide_left_mono) (auto simp add: add_pos_nonneg)
  also have "\<dots> = 1 - 1 / (of_nat n + 1)"
    by (simp add: field_simps add_nonneg_eq_0_iff)
  also have "\<dots> \<le> 1 - 1 / 2 ^ 53"
    using 2 by (simp add: frac_le add_pos_nonneg)
  finally show ?thesis .
qed

lemma progress_cases:
  assumes "0 < m" "n < 2 ^ 53"
  shows "m \<le> n \<Longrightarrow> progress n m = Num 1"
    and "n < m \<Longrightarrow> \<exists>x. progress n m = Num x \<and> x < 1"
proof -
  assume "m \<le> n"
  then have "(1::rat) \<le> of_nat n / of_nat m" using assms by (simp add: pos_le_divide_eq)
  then have "1 \<le> double_round (of_nat n / of_nat m)" by (rule double_round_ge_1)
  then show "progress n m = Num 1" using assms by (simp add: progress_def js_div_def min_def)
next
  assume "n < m"
  then have "(of_nat n / of_nat m :: rat) \<le> 1 - 1 / 2 ^ 53" using assms by (intro quotient_below_1)
  then have "double_round (of_nat n / of_nat m) < 1" by (intro double_round_less_1) auto
  then show "\<exists>x. progress n m = Num x \<and> x < 1"
    using assms by (simp add: progress_def js_div_def min_def)
qed

lemma progress_eq_1_iff:
  assumes "0 < m" "n < 2 ^ 53"
  shows "progress n m = Num 1 \<longleftrightarrow> m \<le> n"
  using progress_cases[OF assms] by (cases "m \<le> n") auto

lemma progress_success_iff:
  assumes "0 < m" "n < 2 ^ 53"
  shows "progressBar_backgroundColor n m = colors_success \<longleftrightarrow> m \<le> n"
  using progress_cases[OF assms] by (cases "m \<le> n") (auto simp add: progressBar_backgroundColor_def)

text \<open>
  C10. The progress value under a field is \<open>Math.min(currentLength / minChars, 1)\<close>.
  For every positive threshold and every string length (a string has fewer than
  \<open>2 ^ 53\<close> units), the value is 1, and the bar takes the success colour, exactly when
  \<open>currentLength \<ge> minChars\<close>: exactly when the field with that threshold and that
  content is satisfied.
\<close>

theorem C10_progress_full_iff_satisfied:
  assumes "0 < minChars" "currentLength < 2 ^ 53"
  shows "progress currentLength minChars = Math_min (js_div currentLength minChars) (Num 1) \<and>
         (progress currentLength minChars = Num 1 \<longleftrightarrow> minChars \<le> currentLength) \<and>
         (progressBar_backgroundColor currentLength minChars = colors_success \<longleftrightarrow>
            minChars \<le> currentLength) \<and>
         (threshold mc f = minChars \<and> length (content f s) = currentLength \<longrightarrow>
            (progress currentLength minChars = Num 1 \<longleftrightarrow> satisfied f (validation_effect mc s)) \<and>
            (progressBar_backgroundColor currentLength minChars = colors_success \<longleftrightarrow>
               satisfied f (validation_effect mc s)))"
  using progress_eq_1_iff[OF assms] progress_success_iff[OF assms]
  by (auto simp add: progress_def satisfied_validation)

text \<open>
  With a zero threshold the quotient is \<open>Infinity\<close> or \<open>NaN\<close>: an empty field then
  shows the primary colour.
\<close>

lemma progress_zero_threshold:
  "progress 0 0 = NaN" "progress (Suc n) 0 = Num 1"
  "progressBar_backgroundColor 0 0 = colors_primary"
  by (simp_all add: progress_def js_div_def progressBar_backgroundColor_def)

theorem C10_witness:
  "(0::nat) < 200 \<and> (200::nat) < 2 ^ 53 \<and> (199::nat) < 2 ^ 53 \<and>
   progress 200 200 = Num 1 \<and> progress 199 200 \<noteq> Num 1 \<and>
   progressBar_backgroundColor 200 200 = colors_success \<and>
   progressBar_backgroundColor 199 200 = colors_primary \<and>
   threshold MIN_CHARS InitialSituation = 200 \<and>
   length (content InitialSituation (filled 30 200 300 150)) = 200 \<and>
   satisfied InitialSituation (validation_effect MIN_CHARS (filled 30 200 300 150))"
proof -
  have a: "(0::nat) < 200" and b: "(200::nat) < 2 ^ 53" and c: "(199::nat) < 2 ^ 53" by simp_all
  have d: "threshold MIN_CHARS InitialSituation = 200"
    and e: "length (content InitialSituation (filled 30 200 300 150)) = 200"
    by (simp_all add: MIN_CHARS_values filled_lengths)
  show ?thesis
    using a b c d e
      C10_progress_full_iff_satisfied [OF a b, of MIN_CHARS InitialSituation "filled 30 200 300 150"]
      C10_progress_full_iff_satisfied [OF a c, of MIN_CHARS InitialSituation "filled 30 200 300 150"]
    by (auto intro: colour.exhaust)
qed

end
